theory Spec2Isabelle
  imports Complex_Main "HOL-Library.List_Lexorder"
begin

section \<open>Python strings\<close>

text \<open>
  A Python \<open>str\<close> is a sequence of Unicode code points; it is modelled as a list of
  natural numbers, so that \<open>len\<close> counts code points and lone surrogates (which make
  \<open>str.encode('utf-8')\<close> raise) exist in the model. \<open>py\<close> embeds an ASCII literal.
\<close>

type_synonym pystr = "nat list"

definition py :: "string \<Rightarrow> pystr" where
  "py s = map of_char s"

text \<open>\<open>str.lower()\<close>, restricted to what the lookups of this program can observe: the
  dictionaries and substring tests below use ASCII keys without the letter k, so only the
  ASCII upper-case letters can be folded onto them.\<close>

definition ascii_lower :: "nat \<Rightarrow> nat" where
  "ascii_lower c = (if 65 \<le> c \<and> c \<le> 90 then c + 32 else c)"

definition str_lower :: "pystr \<Rightarrow> pystr" where
  "str_lower s = map ascii_lower s"

text \<open>\<open>len\<close>: a Python integer.\<close>

definition len :: "'a list \<Rightarrow> int" where
  "len xs = int (length xs)"

fun starts_with :: "pystr \<Rightarrow> pystr \<Rightarrow> bool" where
  "starts_with s [] = True"
| "starts_with [] (p # ps) = False"
| "starts_with (c # cs) (p # ps) = (c = p \<and> starts_with cs ps)"

text \<open>\<open>sub in s\<close> for strings.\<close>

fun str_contains :: "pystr \<Rightarrow> pystr \<Rightarrow> bool" where
  "str_contains sub [] = (sub = [])"
| "str_contains sub (c # cs) = (starts_with (c # cs) sub \<or> str_contains sub cs)"

text \<open>\<open>str(n)\<close> for an integer, as the f-strings format it.\<close>

function str_nat :: "nat \<Rightarrow> pystr" where
  "str_nat n = (if n < 10 then [48 + n] else str_nat (n div 10) @ [48 + n mod 10])"
  by pat_completeness auto
termination
  by (relation "measure id") auto

definition str_int :: "int \<Rightarrow> pystr" where
  "str_int i = (if i < 0 then 45 # str_nat (nat (- i)) else str_nat (nat i))"

section \<open>Regular expressions of the \<open>re\<close> module\<close>

text \<open>
  The patterns of \<open>security_manager.py\<close> are sequences of single-character atoms, each
  taken once or under a greedy quantifier (\<open>*\<close>, \<open>+\<close>, \<open>{6,}\<close>). Every call passes
  \<open>re.IGNORECASE\<close>; \<open>re.MULTILINE\<close> only changes \<open>^\<close> and \<open>$\<close>, which no pattern uses.
  The character classes are the ASCII ones.
\<close>

datatype atom =
    Lit nat          \<comment> \<open>a literal or escaped character\<close>
  | AnyChar          \<comment> \<open>\<open>.\<close>\<close>
  | Space            \<comment> \<open>\<open>\s\<close>\<close>
  | Digit            \<comment> \<open>\<open>\d\<close>\<close>
  | OneOf "nat list" \<comment> \<open>\<open>[...]\<close>\<close>

datatype quant = Once | AtLeast nat

type_synonym regex = "(atom \<times> quant) list"

fun atom_matches :: "atom \<Rightarrow> nat \<Rightarrow> bool" where
  "atom_matches (Lit p) c = (ascii_lower c = ascii_lower p)"
| "atom_matches AnyChar c = (c \<noteq> 10)"
| "atom_matches Space c = (c \<in> set [9, 10, 11, 12, 13, 32])"
| "atom_matches Digit c = (48 \<le> c \<and> c \<le> 57)"
| "atom_matches (OneOf cs) c = (ascii_lower c \<in> set (map ascii_lower cs))"

fun first_some :: "'a option list \<Rightarrow> 'a option" where
  "first_some [] = None"
| "first_some (None # xs) = first_some xs"
| "first_some (Some x # xs) = Some x"

text \<open>The length of the match the backtracking engine finds at the start of the subject:
  a quantified atom first takes the longest run it can and gives characters back one at a
  time.\<close>

fun match_here :: "regex \<Rightarrow> pystr \<Rightarrow> nat option" where
  "match_here [] s = Some 0"
| "match_here ((a, Once) # r) s =
     (case s of
        [] \<Rightarrow> None
      | c # cs \<Rightarrow> if atom_matches a c then map_option Suc (match_here r cs) else None)"
| "match_here ((a, AtLeast lo) # r) s =
     first_some
       (map (\<lambda>k. map_option (\<lambda>n. k + n) (match_here r (drop k s)))
            (rev [lo ..< Suc (length (takeWhile (atom_matches a) s))]))"

text \<open>\<open>re.search(p, s, re.IGNORECASE)\<close> as a truth value.\<close>

fun re_search :: "regex \<Rightarrow> pystr \<Rightarrow> bool" where
  "re_search p [] = (match_here p [] \<noteq> None)"
| "re_search p (c # cs) = (match_here p (c # cs) \<noteq> None \<or> re_search p cs)"

text \<open>\<open>re.findall(p, s, re.IGNORECASE | re.MULTILINE)\<close> for a pattern without groups: the
  leftmost matches, not overlapping. No pattern of this program matches the empty string,
  so the engine's rule for what follows an empty match is never exercised.\<close>

function re_findall :: "regex \<Rightarrow> pystr \<Rightarrow> pystr list" where
  "re_findall p s =
     (case match_here p s of
        None \<Rightarrow> (case s of [] \<Rightarrow> [] | c # cs \<Rightarrow> re_findall p cs)
      | Some n \<Rightarrow> take n s # (if s = [] then [] else re_findall p (drop (max n 1) s)))"
  by pat_completeness auto
termination
  by (relation "measure (\<lambda>(p, s). length s)") auto

definition lit :: "string \<Rightarrow> regex" where
  "lit s = map (\<lambda>c. (Lit (of_char c), Once)) s"

definition spaces0 :: regex where "spaces0 = [(Space, AtLeast 0)]"
definition spaces1 :: regex where "spaces1 = [(Space, AtLeast 1)]"
definition any0 :: regex where "any0 = [(AnyChar, AtLeast 0)]"
definition quote_class :: regex where "quote_class = [(OneOf [39, 34], Once)]"

section \<open>\<open>security_manager.py\<close>\<close>

definition DANGEROUS_PATTERNS :: "(pystr \<times> regex list) list" where
  "DANGEROUS_PATTERNS =
    [(py ''python'',
       [lit ''import'' @ spaces1 @ lit ''os'',
        lit ''import'' @ spaces1 @ lit ''subprocess'',
        lit ''import'' @ spaces1 @ lit ''sys'',
        lit ''__import__'',
        lit ''eval'' @ spaces0 @ lit ''('',
        lit ''exec'' @ spaces0 @ lit ''('',
        lit ''compile'' @ spaces0 @ lit ''('',
        lit ''open'' @ spaces0 @ lit ''('',
        lit ''file'' @ spaces0 @ lit ''('']),
     (py ''javascript'',
       [lit ''require'' @ spaces0 @ lit ''('' @ spaces0 @ quote_class @ lit ''child_process''
          @ quote_class,
        lit ''require'' @ spaces0 @ lit ''('' @ spaces0 @ quote_class @ lit ''fs'' @ quote_class,
        lit ''eval'' @ spaces0 @ lit ''('',
        lit ''Function'' @ spaces0 @ lit ''('',
        lit ''process.exit'',
        lit ''process.kill'']),
     (py ''bash'',
       [lit ''rm'' @ spaces1 @ lit ''-rf'',
        lit ''mkfs'',
        lit ''dd'' @ spaces1 @ lit ''if='',
        lit '':(){'' @ any0 @ lit ''}'',
        lit ''curl'' @ any0 @ lit ''|'' @ any0 @ lit ''bash'',
        lit ''wget'' @ any0 @ lit ''|'' @ any0 @ lit ''sh''])]"

definition loop_patterns :: "regex list" where
  "loop_patterns =
    [lit ''while'' @ spaces1 @ lit ''True'',
     lit ''while'' @ spaces1 @ lit ''1'',
     lit ''for'' @ spaces1 @ any0 @ spaces1 @ lit ''in'' @ spaces1 @ lit ''range'' @ spaces0
       @ lit ''('' @ spaces0 @ [(Digit, AtLeast 6)]]"

text \<open>The four levels, in the order of the list \<open>["safe", "low", "medium", "high"]\<close> that
  the source ranks them by; \<open>level_index\<close> is that list's \<open>index\<close>.\<close>

datatype level = Safe | Low | Medium | High

fun level_index :: "level \<Rightarrow> nat" where
  "level_index Safe = 0"
| "level_index Low = 1"
| "level_index Medium = 2"
| "level_index High = 3"

text \<open>\<open>max(a, b, key=...)\<close>: the first of the two unless the second ranks strictly higher.\<close>

definition max_level :: "level \<Rightarrow> level \<Rightarrow> level" where
  "max_level a b = (if level_index a < level_index b then b else a)"

datatype issue =
    DangerousPattern regex "pystr list" level  \<comment> \<open>pattern, matches, severity\<close>
  | CodeTooLarge int level                     \<comment> \<open>size, severity\<close>
  | PotentialInfiniteLoop regex level          \<comment> \<open>pattern, severity\<close>

fun severity :: "issue \<Rightarrow> level" where
  "severity (DangerousPattern p ms v) = v"
| "severity (CodeTooLarge n v) = v"
| "severity (PotentialInfiniteLoop p v) = v"


record verdict =
  is_safe :: bool
  risk_level :: level
  issues :: "issue list"
  strict_mode :: bool

text \<open>The loop over the dangerous patterns, on the pair \<open>(issues, risk_level)\<close>.\<close>

fun check_dangerous :: "regex list \<Rightarrow> pystr \<Rightarrow> bool \<Rightarrow> issue list \<times> level \<Rightarrow> issue list \<times> level" where
  "check_dangerous [] code strict acc = acc"
| "check_dangerous (p # ps) code strict (iss, risk) =
     (let ms = re_findall p code in
      if ms \<noteq> []
      then check_dangerous ps code strict
             (iss @ [DangerousPattern p ms (if strict then High else Medium)], High)
      else check_dangerous ps code strict (iss, risk))"

definition check_length :: "pystr \<Rightarrow> issue list \<times> level \<Rightarrow> issue list \<times> level" where
  "check_length code acc =
     (case acc of (iss, risk) \<Rightarrow>
        if len code > 100000
        then (iss @ [CodeTooLarge (len code) Medium], max_level risk Medium)
        else (iss, risk))"

fun check_loops :: "regex list \<Rightarrow> pystr \<Rightarrow> issue list \<times> level \<Rightarrow> issue list \<times> level" where
  "check_loops [] code acc = acc"
| "check_loops (p # ps) code (iss, risk) =
     (if re_search p code
      then check_loops ps code (iss @ [PotentialInfiniteLoop p Medium], max_level risk Medium)
      else check_loops ps code (iss, risk))"

definition dict_get :: "('k \<times> 'v) list \<Rightarrow> 'k \<Rightarrow> 'v \<Rightarrow> 'v" where
  "dict_get d k dflt = (case map_of d k of Some v \<Rightarrow> v | None \<Rightarrow> dflt)"

definition validate_code :: "pystr \<Rightarrow> pystr \<Rightarrow> bool \<Rightarrow> verdict" where
  "validate_code code language strict =
     (let dangerous_patterns = dict_get DANGEROUS_PATTERNS (str_lower language) [];
          acc = check_dangerous dangerous_patterns code strict ([], Safe);
          acc = check_length code acc;
          acc = check_loops loop_patterns code acc
      in \<lparr> is_safe = (snd acc \<noteq> High \<or> \<not> strict),
           risk_level = snd acc,
           issues = fst acc,
           strict_mode = strict \<rparr>)"

definition safe_domains :: "regex list" where
  "safe_domains = [lit ''github.com'', lit ''gitlab.com'', lit ''bitbucket.org'']"

fun search_any :: "regex list \<Rightarrow> pystr \<Rightarrow> bool" where
  "search_any [] url = False"
| "search_any (d # ds) url = (if re_search d url then True else search_any ds url)"

definition validate_repository_url :: "pystr \<Rightarrow> bool" where
  "validate_repository_url repo_url = search_any safe_domains repo_url"


section \<open>The outside world: Docker, clocks and UUIDs\<close>

text \<open>
  Exceptions are values. All three kinds are subclasses of \<open>Exception\<close>, so an
  \<open>except Exception\<close> clause catches each; \<open>except docker.errors.ImageNotFound\<close> catches
  the first only.
\<close>

datatype exn = ImageNotFound pystr | UnicodeEncodeError pystr | OtherError pystr

fun exn_str :: "exn \<Rightarrow> pystr" where
  "exn_str (ImageNotFound m) = m"
| "exn_str (UnicodeEncodeError m) = m"
| "exn_str (OtherError m) = m"

text \<open>\<open>datetime.now()\<close>: the reading in seconds, and its \<open>isoformat()\<close>.\<close>

record datetime =
  seconds :: real
  isoformat :: pystr

text \<open>The keyword arguments of \<open>docker_client.containers.create\<close>.\<close>

record create_args =
  ca_image :: pystr
  ca_command :: pystr
  ca_detach :: bool
  ca_mem_limit :: pystr
  ca_nano_cpus :: int
  ca_network_mode :: pystr
  ca_network_disabled :: bool
  ca_cap_drop :: "pystr list"
  ca_security_opt :: "pystr list"
  ca_read_only :: bool
  ca_tmpfs :: "(pystr \<times> pystr) list"
  ca_labels :: "(pystr \<times> pystr) list"

text \<open>A container object is identified by its id.\<close>

type_synonym container = pystr

text \<open>\<open>ExecResult(exit_code, output)\<close> of \<open>exec_run(..., demux=True)\<close>: the two streams are
  byte strings or \<open>None\<close>.\<close>

record exec_result =
  er_exit_code :: int
  er_stdout :: "nat list option"
  er_stderr :: "nat list option"

record tar_archive =
  tar_name :: pystr
  tar_data :: "nat list"

text \<open>What \<open>container.stats(stream=False)\<close> returns, as far as \<open>get_sandbox_stats\<close> reads
  it. The two memory counters are read with \<open>.get(..., 0)\<close>; \<open>networks\<close> may be absent, and
  when present may lack \<open>eth0\<close>.\<close>

record docker_stats =
  cpu_total_usage :: real
  precpu_total_usage :: real
  system_cpu_usage :: real
  presystem_cpu_usage :: real
  memory_usage :: "real option"
  memory_limit_raw :: "real option"
  networks :: "(real \<times> real) option option"

text \<open>
  The trace records, in order, every interaction with the outside world and every call of
  the sandbox manager and of the snippet executor. It is instrumentation: the program does
  not read it. The outside world reads it: what a Docker call, a clock or the UUID
  generator answers may depend on everything that happened before.
\<close>

datatype event =
    Uuid4Drawn
  | ClockRead
  | TimeRead
  | ImagesGet pystr
  | ImagesPull pystr
  | ContainersCreate create_args
  | ContainerStart container
  | ExecRun container pystr pystr
  | PutArchive container pystr tar_archive
  | ContainerStats container
  | ContainerStop container int
  | ContainerRemove container
  | CreateSandboxCalled pystr pystr real int bool
  | ExecuteInSandboxReturned pystr pystr bool
  | UploadFileCalled pystr "nat list" pystr
  | GetSandboxStatsCalled pystr
  | StopSandboxCalled pystr
  | ExecuteCodeSnippetCalled pystr pystr int
  | SecurityVerdict verdict

record env =
  uuid4 :: "event list \<Rightarrow> pystr"
  datetime_now :: "event list \<Rightarrow> datetime"
  time_time :: "event list \<Rightarrow> real"
  images_get :: "event list \<Rightarrow> pystr \<Rightarrow> exn option"
  images_pull :: "event list \<Rightarrow> pystr \<Rightarrow> exn option"
  containers_create :: "event list \<Rightarrow> create_args \<Rightarrow> exn + container"
  container_start :: "event list \<Rightarrow> container \<Rightarrow> exn option"
  exec_run :: "event list \<Rightarrow> container \<Rightarrow> pystr \<Rightarrow> pystr \<Rightarrow> exn + exec_result"
  put_archive :: "event list \<Rightarrow> container \<Rightarrow> pystr \<Rightarrow> tar_archive \<Rightarrow> exn option"
  container_stats :: "event list \<Rightarrow> container \<Rightarrow> exn + docker_stats"
  container_stop :: "event list \<Rightarrow> container \<Rightarrow> int \<Rightarrow> exn option"
  container_remove :: "event list \<Rightarrow> container \<Rightarrow> exn option"
  bytes_decode :: "nat list \<Rightarrow> exn + pystr"

text \<open>\<open>str.encode('utf-8')\<close>: a surrogate code point cannot be encoded.\<close>

definition utf8_bytes :: "nat \<Rightarrow> nat list" where
  "utf8_bytes c =
     (if c < 128 then [c]
      else if c < 2048 then [192 + c div 64, 128 + c mod 64]
      else if c < 65536 then [224 + c div 4096, 128 + (c div 64) mod 64, 128 + c mod 64]
      else [240 + c div 262144, 128 + (c div 4096) mod 64, 128 + (c div 64) mod 64,
            128 + c mod 64])"

definition is_surrogate :: "nat \<Rightarrow> bool" where
  "is_surrogate c = (55296 \<le> c \<and> c \<le> 57343)"

definition str_encode :: "pystr \<Rightarrow> exn + nat list" where
  "str_encode s =
     (if list_ex is_surrogate s
      then Inl (UnicodeEncodeError (py ''surrogates not allowed''))
      else Inr (concat (map utf8_bytes s)))"

section \<open>\<open>sandbox_manager.py\<close>\<close>

record sandbox =
  sb_container_id :: pystr
  sb_container :: container
  sb_language :: pystr
  sb_created_at :: datetime
  sb_timeout :: int
  sb_memory_limit :: pystr
  sb_cpu_limit :: real
  sb_network_enabled :: bool
  sb_status :: pystr

text \<open>The dictionary \<open>execute_in_sandbox\<close> returns.\<close>

record exec_dict =
  success :: bool
  error :: "pystr option"
  stdout :: pystr
  stderr :: pystr
  exit_code :: int
  execution_time :: real

record sandbox_stats =
  st_sandbox_id :: pystr
  cpu_percent :: real
  memory_usage_mb :: real
  memory_limit_mb :: real
  memory_percent :: real
  network_rx_bytes :: real
  network_tx_bytes :: real


text \<open>The dictionaries of \<open>execution_controller.py\<close>; a key that some of the program's
  dictionaries of one kind lack is an optional field.\<close>

record analysis =
  is_executable :: bool
  detected_runtime :: "pystr option"
  languages :: "pystr list"
  setup_commands :: "pystr list"
  run_command :: "pystr option"
  test_command :: "pystr option"
  build_command :: "pystr option"
  dependencies :: "pystr list"
  estimated_complexity :: pystr
  requires_docker :: bool
  requires_database :: bool
  confidence :: real
  analysis_issues :: "pystr list"

record log_entry =
  step :: pystr
  command :: "pystr option"
  log_status :: pystr
  log_output :: "pystr option"
  log_error :: "pystr option"
  log_execution_time :: "real option"
  timestamp :: pystr

record repo_result =
  execution_id :: pystr
  sandbox_id :: "pystr option"
  status :: pystr
  result_error :: "pystr option"
  result_analysis :: analysis
  logs :: "log_entry list"
  total_execution_time :: "real option"
  resource_stats :: "sandbox_stats option option"
  result_timestamp :: "pystr option"

text \<open>The state of the process: the manager's fields, the controller's history, the
  module-level names of \<open>main_v2.py\<close> that the handlers test, and the trace.
  \<open>docker_client\<close> and \<open>execution_controller\<close> say whether the name holds an object
  (rather than \<open>None\<close>). The history is a \<open>dict\<close>; its insertion order is kept.\<close>

record state =
  trace :: "event list"
  docker_available :: bool
  docker_client :: bool
  active_sandboxes :: "pystr \<rightharpoonup> sandbox"
  execution_history :: "(pystr \<times> repo_result) list"
  RUNANYWHERE_AVAILABLE :: bool
  execution_controller :: bool

definition emit :: "event \<Rightarrow> state \<Rightarrow> state" where
  "emit e s = s\<lparr>trace := trace s @ [e]\<rparr>"

definition draw_uuid :: "env \<Rightarrow> state \<Rightarrow> pystr \<times> state" where
  "draw_uuid E s = (uuid4 E (trace s), emit Uuid4Drawn s)"

definition clock :: "env \<Rightarrow> state \<Rightarrow> datetime \<times> state" where
  "clock E s = (datetime_now E (trace s), emit ClockRead s)"

definition read_time :: "env \<Rightarrow> state \<Rightarrow> real \<times> state" where
  "read_time E s = (time_time E (trace s), emit TimeRead s)"

definition is_available :: "state \<Rightarrow> bool" where
  "is_available s = (docker_available s \<and> docker_client s)"

definition image_map :: "(pystr \<times> pystr) list" where
  "image_map =
    [(py ''python'', py ''python:3.11-slim''),
     (py ''node'', py ''node:18-alpine''),
     (py ''javascript'', py ''node:18-alpine''),
     (py ''java'', py ''openjdk:17-slim''),
     (py ''go'', py ''golang:1.21-alpine''),
     (py ''rust'', py ''rust:1.75-slim''),
     (py ''flutter'', py ''cirrusci/flutter:stable''),
     (py ''dart'', py ''dart:stable''),
     (py ''ruby'', py ''ruby:3.2-alpine''),
     (py ''php'', py ''php:8.2-cli-alpine''),
     (py ''cpp'', py ''gcc:13-alpine''),
     (py ''c'', py ''gcc:13-alpine'')]"

text \<open>Lines 85 to 89: look the image up, pull it when it is not found. The result is the
  exception that leaves the inner \<open>try\<close>, if any.\<close>

definition ensure_image :: "env \<Rightarrow> pystr \<Rightarrow> state \<Rightarrow> exn option \<times> state" where
  "ensure_image E img s =
     (let got = images_get E (trace s) img;
          s1 = emit (ImagesGet img) s
      in case got of
           None \<Rightarrow> (None, s1)
         | Some (ImageNotFound m) \<Rightarrow> (images_pull E (trace s1) img, emit (ImagesPull img) s1)
         | Some e \<Rightarrow> (Some e, s1))"

definition container_args :: "pystr \<Rightarrow> pystr \<Rightarrow> pystr \<Rightarrow> pystr \<Rightarrow> real \<Rightarrow> bool \<Rightarrow> create_args" where
  "container_args img sid language memory_limit cpu_limit network_enabled =
     \<lparr> ca_image = img,
       ca_command = py ''/bin/sleep 3600'',
       ca_detach = True,
       ca_mem_limit = memory_limit,
       ca_nano_cpus = \<lfloor>cpu_limit * 1000000000\<rfloor>,
       ca_network_mode = (if network_enabled then py ''bridge'' else py ''none''),
       ca_network_disabled = (\<not> network_enabled),
       ca_cap_drop = [py ''ALL''],
       ca_security_opt = [py ''no-new-privileges''],
       ca_read_only = False,
       ca_tmpfs = [(py ''/tmp'', py ''size=100m,mode=1777'')],
       ca_labels = [(py ''hackhub.sandbox'', py ''true''),
                    (py ''hackhub.sandbox_id'', sid),
                    (py ''hackhub.language'', language)] \<rparr>"

definition create_sandbox ::
  "env \<Rightarrow> pystr \<Rightarrow> pystr \<Rightarrow> real \<Rightarrow> int \<Rightarrow> bool \<Rightarrow> state \<Rightarrow> pystr option \<times> state" where
  "create_sandbox E language memory_limit cpu_limit timeout network_enabled s0 =
     (let s = emit (CreateSandboxCalled language memory_limit cpu_limit timeout network_enabled) s0
      in if \<not> is_available s then (None, s)
         else
           (case draw_uuid E s of (sid, s) \<Rightarrow>
            let img = dict_get image_map (str_lower language) (py ''ubuntu:22.04'')
            in case ensure_image E img s of
                 (Some e, s) \<Rightarrow> (None, s)
               | (None, s) \<Rightarrow>
                   (let args = container_args img sid language memory_limit cpu_limit
                                 network_enabled;
                        created = containers_create E (trace s) args;
                        s = emit (ContainersCreate args) s
                    in case created of
                         Inl e \<Rightarrow> (None, s)
                       | Inr c \<Rightarrow>
                           (let started = container_start E (trace s) c;
                                s = emit (ContainerStart c) s
                            in case started of
                                 Some e \<Rightarrow> (None, s)
                               | None \<Rightarrow>
                                   (case clock E s of (now, s) \<Rightarrow>
                                      (Some sid,
                                       s\<lparr>active_sandboxes := (active_sandboxes s)(sid \<mapsto>
                                           \<lparr> sb_container_id = c,
                                             sb_container = c,
                                             sb_language = language,
                                             sb_created_at = now,
                                             sb_timeout = timeout,
                                             sb_memory_limit = memory_limit,
                                             sb_cpu_limit = cpu_limit,
                                             sb_network_enabled = network_enabled,
                                             sb_status = py ''running'' \<rparr>)\<rparr>))))))"

text \<open>\<open>x.decode('utf-8') if x else ""\<close> for one stream of the output.\<close>

definition decode_stream :: "env \<Rightarrow> nat list option \<Rightarrow> exn + pystr" where
  "decode_stream E x =
     (case x of
        None \<Rightarrow> Inr []
      | Some b \<Rightarrow> if b = [] then Inr [] else bytes_decode E b)"

definition raised_dict :: "exn \<Rightarrow> exec_dict" where
  "raised_dict e =
     \<lparr> success = False, error = Some (exn_str e), stdout = [], stderr = exn_str e,
       exit_code = - 1, execution_time = 0 \<rparr>"

text \<open>Lines 167 to 179: read the time, run the command, read the time again. The result is
  the exception \<open>exec_run\<close> raised, or what it returned together with the measured
  \<open>execution_time\<close>.\<close>

definition timed_exec ::
  "env \<Rightarrow> container \<Rightarrow> pystr \<Rightarrow> pystr \<Rightarrow> state \<Rightarrow> (exn + exec_result \<times> real) \<times> state" where
  "timed_exec E c cmd working_dir s0 =
     (case read_time E s0 of (start_time, s) \<Rightarrow>
      let shell = py ''sh -c '' @ [39] @ py ''cd '' @ working_dir @ py '' && '' @ cmd @ [39];
          ran = exec_run E (trace s) c shell working_dir;
          s = emit (ExecRun c shell working_dir) s
      in case ran of
           Inl e \<Rightarrow> (Inl e, s)
         | Inr r \<Rightarrow> (case read_time E s of (end_time, s) \<Rightarrow> (Inr (r, end_time - start_time), s)))"

definition timeout_dict :: "int \<Rightarrow> real \<Rightarrow> exec_dict" where
  "timeout_dict timeout elapsed =
     \<lparr> success = False, error = Some (py ''Execution timeout''), stdout = [],
       stderr = py ''Command exceeded '' @ str_int timeout @ py ''s timeout'',
       exit_code = - 1, execution_time = elapsed \<rparr>"

text \<open>\<open>execute_in_sandbox\<close>; its last act here is to record in the trace which command was
  issued in which sandbox and whether the returned dictionary reports success.\<close>

definition execute_in_sandbox_body ::
  "env \<Rightarrow> pystr \<Rightarrow> pystr \<Rightarrow> pystr \<Rightarrow> int \<Rightarrow> state \<Rightarrow> exec_dict \<times> state" where
  "execute_in_sandbox_body E sid cmd working_dir timeout s =
     (case active_sandboxes s sid of
        None \<Rightarrow>
          (\<lparr> success = False, error = Some (py ''Sandbox not found''), stdout = [],
             stderr = py ''Sandbox does not exist'', exit_code = - 1, execution_time = 0 \<rparr>, s)
      | Some sb \<Rightarrow>
          (case timed_exec E (sb_container sb) cmd working_dir s of
             (Inl e, s) \<Rightarrow> (raised_dict e, s)
           | (Inr (r, elapsed), s) \<Rightarrow>
               if elapsed > of_int timeout
               then (timeout_dict timeout elapsed, s)
               else
                 (case decode_stream E (er_stdout r) of
                    Inl e \<Rightarrow> (raised_dict e, s)
                  | Inr out \<Rightarrow>
                      (case decode_stream E (er_stderr r) of
                         Inl e \<Rightarrow> (raised_dict e, s)
                       | Inr err \<Rightarrow>
                           (\<lparr> success = (er_exit_code r = 0), error = None,
                              stdout = out, stderr = err,
                              exit_code = er_exit_code r,
                              execution_time = elapsed \<rparr>, s)))))"

definition execute_in_sandbox ::
  "env \<Rightarrow> pystr \<Rightarrow> pystr \<Rightarrow> pystr \<Rightarrow> int \<Rightarrow> state \<Rightarrow> exec_dict \<times> state" where
  "execute_in_sandbox E sid cmd working_dir timeout s0 =
     (case execute_in_sandbox_body E sid cmd working_dir timeout s0 of
        (d, s) \<Rightarrow> (d, emit (ExecuteInSandboxReturned sid cmd (success d)) s))"

text \<open>\<open>destination_path.split('/')[-1]\<close>.\<close>

definition last_segment :: "pystr \<Rightarrow> pystr" where
  "last_segment path = rev (takeWhile (\<lambda>c. c \<noteq> 47) (rev path))"

definition upload_file_to_sandbox ::
  "env \<Rightarrow> pystr \<Rightarrow> nat list \<Rightarrow> pystr \<Rightarrow> state \<Rightarrow> bool \<times> state" where
  "upload_file_to_sandbox E sid file_content destination_path s0 =
     (let s = emit (UploadFileCalled sid file_content destination_path) s0
      in case active_sandboxes s sid of
           None \<Rightarrow> (False, s)
         | Some sb \<Rightarrow>
             (let tar = \<lparr> tar_name = last_segment destination_path, tar_data = file_content \<rparr>;
                  put = put_archive E (trace s) (sb_container sb) (py ''/tmp'') tar;
                  s = emit (PutArchive (sb_container sb) (py ''/tmp'') tar) s
              in case put of Some e \<Rightarrow> (False, s) | None \<Rightarrow> (True, s)))"

definition get_or_zero :: "real option \<Rightarrow> real" where
  "get_or_zero x = (case x of None \<Rightarrow> 0 | Some v \<Rightarrow> v)"

definition get_sandbox_stats ::
  "env \<Rightarrow> pystr \<Rightarrow> state \<Rightarrow> sandbox_stats option \<times> state" where
  "get_sandbox_stats E sid s0 =
     (let s = emit (GetSandboxStatsCalled sid) s0
      in case active_sandboxes s sid of
           None \<Rightarrow> (None, s)
         | Some sb \<Rightarrow>
             (let got = container_stats E (trace s) (sb_container sb);
                  s = emit (ContainerStats (sb_container sb)) s
              in case got of
                   Inl e \<Rightarrow> (None, s)
                 | Inr st \<Rightarrow>
                     (let cpu_delta = cpu_total_usage st - precpu_total_usage st;
                          system_delta = system_cpu_usage st - presystem_cpu_usage st;
                          cpu = (if system_delta > 0 then (cpu_delta / system_delta) * 100 else 0);
                          usage = get_or_zero (memory_usage st);
                          limit = get_or_zero (memory_limit_raw st);
                          mem = (if limit > 0 then (usage / limit) * 100 else 0)
                      in case networks st of
                           Some None \<Rightarrow> (None, s)
                         | Some (Some (rx, tx)) \<Rightarrow>
                             (Some \<lparr> st_sandbox_id = sid, cpu_percent = cpu,
                                     memory_usage_mb = usage / (1024 * 1024),
                                     memory_limit_mb = limit / (1024 * 1024),
                                     memory_percent = mem,
                                     network_rx_bytes = rx, network_tx_bytes = tx \<rparr>, s)
                         | None \<Rightarrow>
                             (Some \<lparr> st_sandbox_id = sid, cpu_percent = cpu,
                                     memory_usage_mb = usage / (1024 * 1024),
                                     memory_limit_mb = limit / (1024 * 1024),
                                     memory_percent = mem,
                                     network_rx_bytes = 0, network_tx_bytes = 0 \<rparr>, s))))"

definition stop_sandbox :: "env \<Rightarrow> pystr \<Rightarrow> state \<Rightarrow> bool \<times> state" where
  "stop_sandbox E sid s0 =
     (let s = emit (StopSandboxCalled sid) s0
      in case active_sandboxes s sid of
           None \<Rightarrow> (False, s)
         | Some sb \<Rightarrow>
             (let stopped = container_stop E (trace s) (sb_container sb) 5;
                  s = emit (ContainerStop (sb_container sb) 5) s
              in case stopped of
                   Some e \<Rightarrow> (False, s)
                 | None \<Rightarrow>
                     (let removed = container_remove E (trace s) (sb_container sb);
                          s = emit (ContainerRemove (sb_container sb)) s
                      in case removed of
                           Some e \<Rightarrow> (False, s)
                         | None \<Rightarrow>
                             (True, s\<lparr>active_sandboxes := (active_sandboxes s)(sid := None)\<rparr>))))"


section \<open>\<open>execution_controller.py\<close>\<close>

text \<open>The repository metadata, with the keys the controller reads; \<open>None\<close> is an absent
  key. A present value has the type the code expects of it (a string, a list of strings,
  an integer).\<close>

record repo_data =
  rd_language :: "pystr option"
  rd_tech_stack :: "pystr list option"
  rd_stars :: "int option"
  rd_open_issues_count :: "int option"

definition any_in :: "pystr list \<Rightarrow> pystr list \<Rightarrow> bool" where
  "any_in xs allowed = list_ex (\<lambda>x. x \<in> set allowed) xs"

definition analyze_repository_executability :: "repo_data \<Rightarrow> analysis" where
  "analyze_repository_executability rd =
     (let language = str_lower (case rd_language rd of None \<Rightarrow> [] | Some l \<Rightarrow> l);
          a0 = \<lparr> is_executable = False, detected_runtime = None,
                 languages = (if language \<noteq> [] then [language] else []),
                 setup_commands = [], run_command = None, test_command = None,
                 build_command = None, dependencies = [],
                 estimated_complexity = py ''unknown'', requires_docker = False,
                 requires_database = False, confidence = 0, analysis_issues = [] \<rparr>;
          tech_stack = (case rd_tech_stack rd of None \<Rightarrow> [] | Some t \<Rightarrow> t);
          lowered = map str_lower tech_stack;
          a1 =
            (if str_contains (py ''python'') language
                \<or> list_ex (\<lambda>t. str_contains (py ''python'') (str_lower t)) tech_stack
             then a0\<lparr> detected_runtime := Some (py ''python''), is_executable := True,
                      setup_commands :=
                        [py ''pip install --upgrade pip'',
                         py ''pip install -r requirements.txt || echo '' @ [39]
                           @ py ''No requirements.txt found'' @ [39]],
                      run_command :=
                        Some (py ''python main.py || python app.py || python src/main.py''),
                      test_command := Some (py ''pytest || python -m unittest discover''),
                      confidence := 85 / 100 \<rparr>
             else if list_ex (\<lambda>x. str_contains x language) [py ''javascript'', py ''typescript'']
                \<or> any_in lowered [py ''node'', py ''react'', py ''vue'', py ''angular'', py ''nextjs'']
             then a0\<lparr> detected_runtime := Some (py ''node''), is_executable := True,
                      setup_commands := [py ''npm install || yarn install''],
                      run_command := Some (py ''npm start || node index.js || node server.js''),
                      test_command := Some (py ''npm test''),
                      build_command := Some (py ''npm run build''),
                      confidence := 9 / 10 \<rparr>
             else if py ''flutter'' \<in> set lowered \<or> str_contains (py ''dart'') language
             then a0\<lparr> detected_runtime := Some (py ''flutter''), is_executable := True,
                      setup_commands := [py ''flutter pub get''],
                      run_command := Some (py ''flutter run -d web-server --web-port=8080''),
                      test_command := Some (py ''flutter test''),
                      build_command := Some (py ''flutter build web''),
                      confidence := 8 / 10 \<rparr>
             else if str_contains (py ''java'') language
                \<or> any_in lowered [py ''spring'', py ''maven'', py ''gradle'']
             then a0\<lparr> detected_runtime := Some (py ''java''), is_executable := True,
                      setup_commands := [py ''mvn clean install || gradle build''],
                      run_command :=
                        Some (py ''mvn spring-boot:run || gradle bootRun || java -jar target/*.jar''),
                      test_command := Some (py ''mvn test || gradle test''),
                      build_command := Some (py ''mvn package || gradle build''),
                      confidence := 75 / 100 \<rparr>
             else if str_contains (py ''go'') language \<or> str_contains (py ''golang'') language
             then a0\<lparr> detected_runtime := Some (py ''go''), is_executable := True,
                      setup_commands := [py ''go mod download''],
                      run_command := Some (py ''go run main.go || go run .''),
                      test_command := Some (py ''go test ./...''),
                      build_command := Some (py ''go build''),
                      confidence := 85 / 100 \<rparr>
             else if str_contains (py ''rust'') language
             then a0\<lparr> detected_runtime := Some (py ''rust''), is_executable := True,
                      setup_commands := [py ''cargo fetch''],
                      run_command := Some (py ''cargo run''),
                      test_command := Some (py ''cargo test''),
                      build_command := Some (py ''cargo build --release''),
                      confidence := 85 / 100 \<rparr>
             else a0);
          a2 =
            (if any_in lowered [py ''docker'', py ''kubernetes'', py ''containerized'']
             then a1\<lparr> requires_docker := True,
                      setup_commands :=
                        py ''docker-compose up -d || docker build -t app .'' # setup_commands a1 \<rparr>
             else a1);
          a3 =
            (if any_in lowered
                  [py ''postgresql'', py ''mysql'', py ''mongodb'', py ''redis'', py ''database'']
             then a2\<lparr> requires_database := True,
                      analysis_issues :=
                        analysis_issues a2 @ [py ''Repository requires database setup''] \<rparr>
             else a2);
          stars = (case rd_stars rd of None \<Rightarrow> 0 | Some n \<Rightarrow> n);
          open_issues = (case rd_open_issues_count rd of None \<Rightarrow> 0 | Some n \<Rightarrow> n)
      in a3\<lparr> estimated_complexity :=
               (if stars < 100 \<and> open_issues < 10 then py ''simple''
                else if stars < 1000 \<and> open_issues < 50 then py ''moderate''
                else py ''complex'') \<rparr>)"

text \<open>The truth value of an optional string (\<open>if analysis["test_command"]\<close>,
  \<open>if not sandbox_id\<close>): \<open>None\<close> and the empty string are false.\<close>

definition truthy :: "pystr option \<Rightarrow> bool" where
  "truthy x = (case x of None \<Rightarrow> False | Some v \<Rightarrow> v \<noteq> [])"

definition str_of :: "pystr option \<Rightarrow> pystr" where
  "str_of x = (case x of None \<Rightarrow> [] | Some v \<Rightarrow> v)"

text \<open>The log entry appended before a step's command is issued, and the one appended after
  it has returned; \<open>bad\<close> is the status the step gets when its command did not succeed.\<close>

definition running_entry :: "pystr \<Rightarrow> pystr option \<Rightarrow> datetime \<Rightarrow> log_entry" where
  "running_entry name cmd now =
     \<lparr> step = name, command = cmd, log_status = py ''running'', log_output = None,
       log_error = None, log_execution_time = None, timestamp = isoformat now \<rparr>"

definition outcome_entry :: "pystr \<Rightarrow> pystr \<Rightarrow> pystr \<Rightarrow> exec_dict \<Rightarrow> datetime \<Rightarrow> log_entry" where
  "outcome_entry name cmd bad d now =
     \<lparr> step = name, command = Some cmd,
       log_status = (if success d then py ''success'' else bad),
       log_output = Some (stdout d), log_error = Some (stderr d),
       log_execution_time = Some (execution_time d), timestamp = isoformat now \<rparr>"

text \<open>Step 2, the loop \<open>for i, cmd in enumerate(analysis["setup_commands"])\<close>, on the pair of
  the log and the state.\<close>

fun run_setup_commands ::
  "env \<Rightarrow> pystr \<Rightarrow> nat \<Rightarrow> pystr list \<Rightarrow> log_entry list \<times> state \<Rightarrow> log_entry list \<times> state" where
  "run_setup_commands E sid i [] acc = acc"
| "run_setup_commands E sid i (cmd # cmds) (lg, s) =
     (case clock E s of (t1, s) \<Rightarrow>
      case execute_in_sandbox E sid cmd (py ''/tmp/repo'') 180 s of (setup_result, s) \<Rightarrow>
      case clock E s of (t2, s) \<Rightarrow>
        run_setup_commands E sid (Suc i) cmds
          (lg @ [running_entry (py ''setup_'' @ str_nat i) (Some cmd) t1,
                 outcome_entry (py ''setup_'' @ str_nat i) cmd (py ''warning'') setup_result t2],
           s))"

text \<open>Steps 3 and 4 have one shape: when the analysis names a command, log the step as
  running, issue the command in \<open>/tmp/repo\<close>, and log the outcome, which is \<open>failed\<close> when
  the command did not succeed. The test step runs with a timeout of 120, the build step
  with 240.\<close>

definition run_optional_step ::
  "env \<Rightarrow> pystr \<Rightarrow> pystr \<Rightarrow> pystr option \<Rightarrow> int \<Rightarrow> log_entry list \<times> state \<Rightarrow> log_entry list \<times> state" where
  "run_optional_step E sid name cmd_opt limit acc =
     (case acc of (lg, s) \<Rightarrow>
      if truthy cmd_opt
      then
        (case clock E s of (t1, s) \<Rightarrow>
         case execute_in_sandbox E sid (str_of cmd_opt) (py ''/tmp/repo'') limit s of (res, s) \<Rightarrow>
         case clock E s of (t2, s) \<Rightarrow>
           (lg @ [running_entry name cmd_opt t1,
                  outcome_entry name (str_of cmd_opt) (py ''failed'') res t2],
            s))
      else (lg, s))"

text \<open>\<open>d[k] = v\<close> on an insertion-ordered dictionary.\<close>

fun dict_set :: "('k \<times> 'v) list \<Rightarrow> 'k \<Rightarrow> 'v \<Rightarrow> ('k \<times> 'v) list" where
  "dict_set [] k v = [(k, v)]"
| "dict_set ((k', v') # d) k v =
     (if k' = k then (k, v) # d else (k', v') # dict_set d k v)"

definition failed_critical :: "log_entry list \<Rightarrow> bool" where
  "failed_critical lg =
     list_ex (\<lambda>l. log_status l = py ''failed'' \<and> step l \<in> set [py ''clone'', py ''build'']) lg"

definition clone_command :: "pystr \<Rightarrow> pystr" where
  "clone_command repo_url = py ''git clone '' @ repo_url @ py '' /tmp/repo''"

text \<open>
  \<open>execute_repository\<close>. Every call inside its \<open>try\<close> block is a method of the sandbox
  manager, and each of those catches every \<open>Exception\<close> itself (see above: none of them
  returns an exception), so no path of the model enters the handler of lines 366 to 376.
\<close>

definition execute_repository ::
  "env \<Rightarrow> pystr \<Rightarrow> repo_data \<Rightarrow> int \<Rightarrow> state \<Rightarrow> repo_result \<times> state" where
  "execute_repository E repo_url rd timeout s0 =
     (case draw_uuid E s0 of (eid, s) \<Rightarrow>
      let a = analyze_repository_executability rd
      in if \<not> is_executable a
         then (\<lparr> execution_id = eid, sandbox_id = None, status = py ''failed'',
                  result_error = Some (py ''Repository is not executable''),
                  result_analysis = a, logs = [], total_execution_time = None,
                  resource_stats = None, result_timestamp = None \<rparr>, s)
         else
           (case create_sandbox E (str_of (detected_runtime a)) (py ''1g'') 2 timeout True s of
              (created, s) \<Rightarrow>
            if \<not> truthy created
            then (\<lparr> execution_id = eid, sandbox_id = None, status = py ''failed'',
                     result_error = Some (py ''Failed to create sandbox (Docker not available)''),
                     result_analysis = a, logs = [], total_execution_time = None,
                     resource_stats = None, result_timestamp = None \<rparr>, s)
            else
              (let sid = str_of created
               in case clock E s of (start_time, s) \<Rightarrow>
                  case clock E s of (t1, s) \<Rightarrow>
                  case execute_in_sandbox E sid (clone_command repo_url) (py ''/tmp'') 120 s of
                    (clone_result, s) \<Rightarrow>
                  if \<not> success clone_result
                  then
                    (case clock E s of (t2, s) \<Rightarrow>
                     case stop_sandbox E sid s of (stopped, s) \<Rightarrow>
                       (\<lparr> execution_id = eid, sandbox_id = Some sid, status = py ''failed'',
                          result_error = Some (py ''Failed to clone repository''),
                          result_analysis = a,
                          logs = [running_entry (py ''clone'') None t1,
                                  \<lparr> step = py ''clone'', command = None,
                                    log_status = py ''failed'', log_output = None,
                                    log_error = Some (stderr clone_result),
                                    log_execution_time = None, timestamp = isoformat t2 \<rparr>],
                          total_execution_time = None, resource_stats = None,
                          result_timestamp = None \<rparr>, s))
                  else
                    (case clock E s of (t2, s) \<Rightarrow>
                     case run_setup_commands E sid 0 (setup_commands a)
                            ([running_entry (py ''clone'') None t1,
                              \<lparr> step = py ''clone'', command = None,
                                log_status = py ''success'',
                                log_output = Some (stdout clone_result), log_error = None,
                                log_execution_time = None, timestamp = isoformat t2 \<rparr>], s) of
                       acc \<Rightarrow>
                     case run_optional_step E sid (py ''test'') (test_command a) 120 acc of
                       acc \<Rightarrow>
                     case run_optional_step E sid (py ''build'') (build_command a) 240 acc of
                       (execution_log, s) \<Rightarrow>
                     case get_sandbox_stats E sid s of (stats, s) \<Rightarrow>
                     case stop_sandbox E sid s of (stopped, s) \<Rightarrow>
                     case clock E s of (end_time, s) \<Rightarrow>
                       (let execution_result =
                              \<lparr> execution_id = eid, sandbox_id = Some sid,
                                status = (if failed_critical execution_log then py ''failed''
                                          else py ''success''),
                                result_error = None, result_analysis = a,
                                logs = execution_log,
                                total_execution_time =
                                  Some (seconds end_time - seconds start_time),
                                resource_stats = Some stats,
                                result_timestamp = Some (isoformat start_time) \<rparr>
                        in (execution_result,
                            s\<lparr>execution_history :=
                                dict_set (execution_history s) eid execution_result\<rparr>))))))"

text \<open>\<open>s.replace(old, new)\<close> for a non-empty \<open>old\<close>.\<close>

function str_replace :: "pystr \<Rightarrow> pystr \<Rightarrow> pystr \<Rightarrow> pystr" where
  "str_replace old new [] = []"
| "str_replace old new (c # cs) =
     (if old \<noteq> [] \<and> starts_with (c # cs) old
      then new @ str_replace old new (drop (length old) (c # cs))
      else c # str_replace old new cs)"
  by pat_completeness auto
termination
  by (relation "measure (\<lambda>(old, new, s). length s)") auto

definition get_file_extension :: "pystr \<Rightarrow> pystr" where
  "get_file_extension language =
     dict_get
       [(py ''python'', py ''py''), (py ''javascript'', py ''js''), (py ''node'', py ''js''),
        (py ''typescript'', py ''ts''), (py ''java'', py ''java''), (py ''go'', py ''go''),
        (py ''rust'', py ''rs''), (py ''cpp'', py ''cpp''), (py ''c'', py ''c''),
        (py ''ruby'', py ''rb''), (py ''php'', py ''php'')]
       (str_lower language) (py ''txt'')"

definition get_run_command :: "pystr \<Rightarrow> pystr \<Rightarrow> pystr" where
  "get_run_command language filename =
     dict_get
       [(py ''python'', py ''python /tmp/'' @ filename),
        (py ''javascript'', py ''node /tmp/'' @ filename),
        (py ''node'', py ''node /tmp/'' @ filename),
        (py ''typescript'', py ''ts-node /tmp/'' @ filename),
        (py ''java'', py ''javac /tmp/'' @ filename @ py '' && java ''
           @ str_replace (py ''.java'') [] filename),
        (py ''go'', py ''go run /tmp/'' @ filename),
        (py ''rust'', py ''rustc /tmp/'' @ filename @ py '' -o /tmp/output && /tmp/output''),
        (py ''cpp'', py ''g++ /tmp/'' @ filename @ py '' -o /tmp/output && /tmp/output''),
        (py ''c'', py ''gcc /tmp/'' @ filename @ py '' -o /tmp/output && /tmp/output''),
        (py ''ruby'', py ''ruby /tmp/'' @ filename),
        (py ''php'', py ''php /tmp/'' @ filename)]
       (str_lower language) (py ''cat /tmp/'' @ filename)"

text \<open>What \<open>execute_code_snippet\<close> and the handler \<open>execute_code\<close> return.\<close>

record snippet_result =
  sn_execution_id :: "pystr option"
  sn_sandbox_id :: "pystr option"
  sn_status :: pystr
  sn_error :: "pystr option"
  sn_stdout :: pystr
  sn_stderr :: pystr
  sn_exit_code :: "int option"
  sn_execution_time :: "real option"
  sn_validation :: "verdict option"

text \<open>
  \<open>execute_code_snippet\<close>. In its \<open>try\<close> block the argument \<open>code.encode('utf-8')\<close> is
  evaluated before \<open>upload_file_to_sandbox\<close> is called, and it is the one operation of the
  block that can raise.
\<close>

definition execute_code_snippet ::
  "env \<Rightarrow> pystr \<Rightarrow> pystr \<Rightarrow> int \<Rightarrow> state \<Rightarrow> snippet_result \<times> state" where
  "execute_code_snippet E code language timeout s0 =
     (case draw_uuid E (emit (ExecuteCodeSnippetCalled code language timeout) s0) of
        (eid, s) \<Rightarrow>
      case create_sandbox E language (py ''256m'') (1 / 2) timeout False s of (created, s) \<Rightarrow>
      if \<not> truthy created
      then (\<lparr> sn_execution_id = Some eid, sn_sandbox_id = None, sn_status = py ''failed'',
               sn_error = Some (py ''Failed to create sandbox (Docker not available)''),
               sn_stdout = [], sn_stderr = [], sn_exit_code = None,
               sn_execution_time = None, sn_validation = None \<rparr>, s)
      else
        (let sid = str_of created;
             filename = py ''code_'' @ eid @ py ''.'' @ get_file_extension language
         in case str_encode code of
              Inl e \<Rightarrow>
                (case stop_sandbox E sid s of (stopped, s) \<Rightarrow>
                   (\<lparr> sn_execution_id = Some eid, sn_sandbox_id = Some sid,
                      sn_status = py ''error'', sn_error = Some (exn_str e),
                      sn_stdout = [], sn_stderr = exn_str e, sn_exit_code = None,
                      sn_execution_time = None, sn_validation = None \<rparr>, s))
            | Inr file_content \<Rightarrow>
                (case upload_file_to_sandbox E sid file_content (py ''/tmp/'' @ filename) s of
                   (uploaded, s) \<Rightarrow>
                 case execute_in_sandbox E sid (get_run_command language filename) (py ''/tmp'')
                        timeout s of
                   (result, s) \<Rightarrow>
                 case stop_sandbox E sid s of (stopped, s) \<Rightarrow>
                   (\<lparr> sn_execution_id = Some eid, sn_sandbox_id = Some sid,
                      sn_status = (if success result then py ''success'' else py ''failed''),
                      sn_error = None, sn_stdout = stdout result, sn_stderr = stderr result,
                      sn_exit_code = Some (exit_code result),
                      sn_execution_time = Some (execution_time result),
                      sn_validation = None \<rparr>, s))))"

text \<open>\<open>xs[:limit]\<close>.\<close>

definition slice_to :: "'a list \<Rightarrow> int \<Rightarrow> 'a list" where
  "slice_to xs limit = (if 0 \<le> limit then take (nat limit) xs else take (nat (len xs + limit)) xs)"

definition timestamp_key :: "repo_result \<Rightarrow> pystr" where
  "timestamp_key x = str_of (result_timestamp x)"

text \<open>\<open>sorted(..., key=..., reverse=True)\<close> is stable: entries with equal keys keep their
  order.\<close>

definition sorted_reverse :: "('a \<Rightarrow> pystr) \<Rightarrow> 'a list \<Rightarrow> 'a list" where
  "sorted_reverse key xs = rev (sort_key key (rev xs))"

definition get_execution_history :: "int \<Rightarrow> state \<Rightarrow> repo_result list" where
  "get_execution_history limit s =
     slice_to (sorted_reverse timestamp_key (map snd (execution_history s))) limit"

section \<open>\<open>main_v2.py\<close>: the handler of \<open>POST /execute/code\<close>\<close>

record code_execution_request =
  req_code :: pystr
  req_language :: pystr
  req_timeout :: int

datatype 'a response = HTTPException nat pystr | Returned 'a

definition execute_code ::
  "env \<Rightarrow> code_execution_request \<Rightarrow> state \<Rightarrow> snippet_result response \<times> state" where
  "execute_code E request s =
     (if \<not> RUNANYWHERE_AVAILABLE s \<or> \<not> execution_controller s
      then (HTTPException 503 (py ''RunAnywhere not available. Install: pip install docker''), s)
      else if \<not> is_available s
      then (HTTPException 503 (py ''Docker not available. Please start Docker Desktop.''), s)
      else
        (let validation = validate_code (req_code request) (req_language request) True;
             s = emit (SecurityVerdict validation) s
         in if \<not> is_safe validation
            then (Returned
                    \<lparr> sn_execution_id = None, sn_sandbox_id = None, sn_status = py ''rejected'',
                      sn_error = Some (py ''Code contains potentially dangerous patterns''),
                      sn_stdout = [], sn_stderr = [], sn_exit_code = None,
                      sn_execution_time = None, sn_validation = Some validation \<rparr>, s)
            else
              (case execute_code_snippet E (req_code request) (req_language request)
                      (req_timeout request) s of
                 (result, s) \<Rightarrow> (Returned result, s))))"


section \<open>Reading the trace and the results\<close>

text \<open>The events a run added to the trace.\<close>

definition new_events :: "state \<Rightarrow> state \<Rightarrow> event list" where
  "new_events s s' = drop (length (trace s)) (trace s')"

definition stop_calls :: "pystr \<Rightarrow> event list \<Rightarrow> nat" where
  "stop_calls sid tr = length (filter (\<lambda>e. e = StopSandboxCalled sid) tr)"

text \<open>The commands issued through \<open>execute_in_sandbox\<close>, in order, each with whether it
  succeeded.\<close>

definition outcome_of :: "event \<Rightarrow> (pystr \<times> bool) list" where
  "outcome_of e = (case e of ExecuteInSandboxReturned sid cmd ok \<Rightarrow> [(cmd, ok)] | _ \<Rightarrow> [])"

definition exec_outcomes :: "event list \<Rightarrow> (pystr \<times> bool) list" where
  "exec_outcomes tr = concat (map outcome_of tr)"

text \<open>The events that provision a sandbox or enter the snippet executor.\<close>

definition is_provisioning :: "event \<Rightarrow> bool" where
  "is_provisioning e =
     (case e of
        CreateSandboxCalled l m c t n \<Rightarrow> True
      | ContainersCreate args \<Rightarrow> True
      | ExecuteCodeSnippetCalled c l t \<Rightarrow> True
      | _ \<Rightarrow> False)"

definition created_containers :: "event list \<Rightarrow> create_args list" where
  "created_containers tr =
     concat (map (\<lambda>e. case e of ContainersCreate args \<Rightarrow> [args] | _ \<Rightarrow> []) tr)"

definition create_calls :: "event list \<Rightarrow> bool list" where
  "create_calls tr =
     concat (map (\<lambda>e. case e of CreateSandboxCalled l m c t n \<Rightarrow> [n] | _ \<Rightarrow> []) tr)"

definition verdicts :: "event list \<Rightarrow> verdict list" where
  "verdicts tr = concat (map (\<lambda>e. case e of SecurityVerdict v \<Rightarrow> [v] | _ \<Rightarrow> []) tr)"

text \<open>The events below the sandbox manager: clocks, UUIDs and the Docker calls other than
  the creation of a container. The other events are the calls this development follows.\<close>

definition docker_level :: "event \<Rightarrow> bool" where
  "docker_level e =
     (case e of
        Uuid4Drawn \<Rightarrow> True
      | ClockRead \<Rightarrow> True
      | TimeRead \<Rightarrow> True
      | ImagesGet i \<Rightarrow> True
      | ImagesPull i \<Rightarrow> True
      | ContainerStart c \<Rightarrow> True
      | ExecRun c cmd wd \<Rightarrow> True
      | PutArchive c path tar \<Rightarrow> True
      | ContainerStats c \<Rightarrow> True
      | ContainerStop c t \<Rightarrow> True
      | ContainerRemove c \<Rightarrow> True
      | _ \<Rightarrow> False)"

definition high_level :: "event list \<Rightarrow> event list" where
  "high_level tr = filter (\<lambda>e. \<not> docker_level e) tr"

text \<open>A later state of the same run: its trace extends the earlier one.\<close>

definition ext :: "state \<Rightarrow> state \<Rightarrow> bool" where
  "ext s s' = (\<exists>evs. trace s' = trace s @ evs)"

text \<open>A run from \<open>s\<close> to \<open>s'\<close> whose high-level events are \<open>evs\<close>.\<close>

definition run_events :: "state \<Rightarrow> state \<Rightarrow> event list \<Rightarrow> bool" where
  "run_events s s' evs = (ext s s' \<and> high_level (new_events s s') = evs)"

text \<open>What a step log shows of each entry: the step, its command and its status.\<close>

definition log_view :: "log_entry list \<Rightarrow> (pystr \<times> pystr option \<times> pystr) list" where
  "log_view lg = map (\<lambda>l. (step l, command l, log_status l)) lg"


text \<open>The two log entries of a step whose command was issued, given whether it succeeded;
  and those of a sequence of steps, given the outcomes in order.\<close>

definition step_view :: "pystr \<times> pystr \<times> pystr \<Rightarrow> bool \<Rightarrow> (pystr \<times> pystr option \<times> pystr) list" where
  "step_view st ok =
     (case st of (name, cmd, bad) \<Rightarrow>
        [(name, Some cmd, py ''running''),
         (name, Some cmd, if ok then py ''success'' else bad)])"

definition steps_view ::
  "(pystr \<times> pystr \<times> pystr) list \<Rightarrow> bool list \<Rightarrow> (pystr \<times> pystr option \<times> pystr) list" where
  "steps_view sts oks = concat (map (\<lambda>(st, ok). step_view st ok) (zip sts oks))"

definition critical_in_view :: "(pystr \<times> pystr option \<times> pystr) list \<Rightarrow> bool" where
  "critical_in_view v =
     list_ex (\<lambda>(name, cmd, st). st = py ''failed'' \<and> name \<in> set [py ''clone'', py ''build'']) v"

definition returned_event :: "pystr \<Rightarrow> (pystr \<times> pystr \<times> pystr) \<times> bool \<Rightarrow> event" where
  "returned_event sid x = (case x of ((name, cmd, bad), ok) \<Rightarrow> ExecuteInSandboxReturned sid cmd ok)"

definition setup_steps :: "nat \<Rightarrow> pystr list \<Rightarrow> (pystr \<times> pystr \<times> pystr) list" where
  "setup_steps i cmds =
     map (\<lambda>(i, cmd). (py ''setup_'' @ str_nat i, cmd, py ''warning'')) (enumerate i cmds)"

text \<open>What \<open>create_sandbox\<close> adds to the high-level events after its own call: nothing,
  or the creation of one container; and the same for the call \<open>execute_code_snippet\<close>
  makes, with the arguments of that container.\<close>

definition no_container_or_one :: "event list \<Rightarrow> bool" where
  "no_container_or_one cs = (cs = [] \<or> (\<exists>args. cs = [ContainersCreate args]))"

definition snippet_container :: "pystr \<Rightarrow> event list \<Rightarrow> bool" where
  "snippet_container language cs =
     (cs = [] \<or> (\<exists>img u. cs = [ContainersCreate
                      (container_args img u language (py ''256m'') (1 / 2) False)]))"

text \<open>The finished entries of a log view, and the command a log entry stands for: the
  entries of the clone step carry no command.\<close>

definition finished_view :: "(pystr \<times> pystr option \<times> pystr) list \<Rightarrow> (pystr \<times> pystr option \<times> pystr) list" where
  "finished_view v = filter (\<lambda>(name, cmd, st). st \<noteq> py ''running'') v"

definition issued_command :: "pystr \<Rightarrow> pystr \<times> pystr option \<times> pystr \<Rightarrow> pystr" where
  "issued_command repo_url e =
     (case e of (name, cmd, st) \<Rightarrow> (case cmd of None \<Rightarrow> clone_command repo_url | Some c \<Rightarrow> c))"


definition max_severity :: "issue list \<Rightarrow> level" where
  "max_severity iss = foldl max_level Safe (map severity iss)"


subsection \<open>The host of a URL\<close>

text \<open>The host component of a URL, for stating what \<open>validate_repository_url\<close> is meant to
  check: the authority follows \<open>://\<close> and ends at the first \<open>/\<close>, \<open>?\<close> or \<open>#\<close>; the host is
  what is left of it without user information and port, in lower case.\<close>

fun split_after :: "pystr \<Rightarrow> pystr \<Rightarrow> pystr option" where
  "split_after sep [] = (if sep = [] then Some [] else None)"
| "split_after sep (c # cs) =
     (if starts_with (c # cs) sep then Some (drop (length sep) (c # cs)) else split_after sep cs)"

definition url_host :: "pystr \<Rightarrow> pystr" where
  "url_host url =
     (case split_after (py ''://'') url of
        None \<Rightarrow> []
      | Some rest \<Rightarrow>
          (let authority = takeWhile (\<lambda>c. c \<notin> set (py ''/?#'')) rest;
               hostport = rev (takeWhile (\<lambda>c. c \<noteq> 64) (rev authority));
               host = takeWhile (\<lambda>c. c \<noteq> 58) hostport
           in str_lower host))"

definition allowed_hosts :: "pystr list" where
  "allowed_hosts = [py ''github.com'', py ''gitlab.com'', py ''bitbucket.org'']"

subsection \<open>Environments and states to run the program in\<close>

text \<open>A Docker daemon that does what it is asked: every image is present, the container
  is named \<open>c1\<close>, every command takes two seconds and prints nothing, and exits with status 1
  exactly when \<open>fails\<close> holds of its shell command line. UUIDs grow with the trace, so no
  two are equal.\<close>

definition docker_env :: "(pystr \<Rightarrow> bool) \<Rightarrow> env" where
  "docker_env fails =
     \<lparr> uuid4 = (\<lambda>tr. replicate (Suc (length tr)) 120),
       datetime_now = (\<lambda>tr. \<lparr> seconds = of_nat (length tr),
                               isoformat = replicate (Suc (length tr)) 49 \<rparr>),
       time_time = (\<lambda>tr. of_nat (length tr)),
       images_get = (\<lambda>tr img. None),
       images_pull = (\<lambda>tr img. None),
       containers_create = (\<lambda>tr args. Inr (py ''c1'')),
       container_start = (\<lambda>tr c. None),
       exec_run = (\<lambda>tr c cmd wd.
         Inr \<lparr> er_exit_code = (if fails cmd then 1 else 0), er_stdout = None,
               er_stderr = None \<rparr>),
       put_archive = (\<lambda>tr c path tar. None),
       container_stats = (\<lambda>tr c. Inl (OtherError (py ''no stats''))),
       container_stop = (\<lambda>tr c t. None),
       container_remove = (\<lambda>tr c. None),
       bytes_decode = (\<lambda>b. Inr b) \<rparr>"



definition fresh_state :: "bool \<Rightarrow> state" where
  "fresh_state docker =
     \<lparr> trace = [], docker_available = docker, docker_client = docker,
       active_sandboxes = Map.empty, execution_history = [],
       RUNANYWHERE_AVAILABLE = True, execution_controller = True \<rparr>"


definition python_repo :: repo_data where
  "python_repo =
     \<lparr> rd_language = Some (py ''Python''), rd_tech_stack = None, rd_stars = Some 5,
       rd_open_issues_count = None \<rparr>"

definition node_repo :: repo_data where
  "node_repo =
     \<lparr> rd_language = Some (py ''JavaScript''), rd_tech_stack = Some [py ''React''],
       rd_stars = None, rd_open_issues_count = None \<rparr>"


section \<open>Verified properties\<close>


subsection \<open>Traces\<close>

lemma ext_refl [simp]: "ext s s"
  by (simp add: ext_def)

lemma ext_trans: "ext s s1 \<Longrightarrow> ext s1 s2 \<Longrightarrow> ext s s2"
  by (auto simp: ext_def)

lemma trace_emit [simp]: "trace (emit e s) = trace s @ [e]"
  by (simp add: emit_def)

lemma ext_emit [simp]: "ext s (emit e s)"
  by (simp add: ext_def)

lemma ext_emit_right: "ext s s' \<Longrightarrow> ext s (emit e s')"
  by (auto simp: ext_def)

lemma emit_fields [simp]:
  "active_sandboxes (emit e s) = active_sandboxes s"
  "execution_history (emit e s) = execution_history s"
  "docker_available (emit e s) = docker_available s"
  "docker_client (emit e s) = docker_client s"
  "RUNANYWHERE_AVAILABLE (emit e s) = RUNANYWHERE_AVAILABLE s"
  "execution_controller (emit e s) = execution_controller s"
  by (simp_all add: emit_def)

lemma ext_emit_left: "ext (emit e s) s' \<Longrightarrow> ext s s'"
  by (auto simp: ext_def)

lemma ext_update [simp]:
  "ext s (s'\<lparr>active_sandboxes := m\<rparr>) = ext s s'"
  "ext s (s'\<lparr>execution_history := h\<rparr>) = ext s s'"
  by (simp_all add: ext_def)

lemma new_events_self [simp]: "new_events s s = []"
  by (simp add: new_events_def)

lemma new_events_append:
  "ext s s1 \<Longrightarrow> ext s1 s2 \<Longrightarrow> new_events s s2 = new_events s s1 @ new_events s1 s2"
  by (auto simp: ext_def new_events_def)

lemma new_events_emit [simp]: "new_events s (emit e s) = [e]"
  by (simp add: new_events_def)

lemma new_events_emit_ext:
  "ext s s' \<Longrightarrow> new_events s (emit e s') = new_events s s' @ [e]"
  by (auto simp: ext_def new_events_def)

lemma new_events_update [simp]:
  "new_events s (s'\<lparr>active_sandboxes := m\<rparr>) = new_events s s'"
  "new_events s (s'\<lparr>execution_history := h\<rparr>) = new_events s s'"
  by (simp_all add: new_events_def)

lemma high_level_append [simp]: "high_level (xs @ ys) = high_level xs @ high_level ys"
  by (simp add: high_level_def)

lemma high_level_Nil [simp]: "high_level [] = []"
  by (simp add: high_level_def)

lemma high_level_Cons [simp]:
  "high_level (e # es) = (if docker_level e then high_level es else e # high_level es)"
  by (simp add: high_level_def)

lemma docker_level_simps [simp]:
  "docker_level Uuid4Drawn" "docker_level ClockRead" "docker_level TimeRead"
  "docker_level (ImagesGet i)" "docker_level (ImagesPull i)" "docker_level (ContainerStart c)"
  "docker_level (ExecRun c cmd wd)" "docker_level (PutArchive c path tar)"
  "docker_level (ContainerStats c)" "docker_level (ContainerStop c t)"
  "docker_level (ContainerRemove c)"
  "\<not> docker_level (ContainersCreate args)"
  "\<not> docker_level (CreateSandboxCalled l m cl t n)"
  "\<not> docker_level (ExecuteInSandboxReturned sid cmd ok)"
  "\<not> docker_level (UploadFileCalled sid b d)"
  "\<not> docker_level (GetSandboxStatsCalled sid)"
  "\<not> docker_level (StopSandboxCalled sid)"
  "\<not> docker_level (ExecuteCodeSnippetCalled code l t)"
  "\<not> docker_level (SecurityVerdict v)"
  by (simp_all add: docker_level_def)


lemma exec_outcomes_high_level: "exec_outcomes tr = exec_outcomes (high_level tr)"
  by (induction tr)
     (auto simp: exec_outcomes_def outcome_of_def docker_level_def
           split: event.splits)

lemma created_containers_high_level: "created_containers tr = created_containers (high_level tr)"
  by (induction tr)
     (auto simp: created_containers_def docker_level_def split: event.splits)

lemma create_calls_high_level: "create_calls tr = create_calls (high_level tr)"
  by (induction tr)
     (auto simp: create_calls_def docker_level_def split: event.splits)

lemma verdicts_high_level: "verdicts tr = verdicts (high_level tr)"
  by (induction tr)
     (auto simp: verdicts_def docker_level_def split: event.splits)

lemma provisioning_high_level:
  "filter is_provisioning tr = filter is_provisioning (high_level tr)"
  by (induction tr)
     (auto simp: docker_level_def is_provisioning_def split: event.splits)

subsection \<open>The clocks and the UUID generator\<close>

lemma draw_uuid_trace:
  "draw_uuid E s = (u, s') \<Longrightarrow> ext s s' \<and> high_level (new_events s s') = []
     \<and> active_sandboxes s' = active_sandboxes s \<and> execution_history s' = execution_history s"
  by (auto simp: draw_uuid_def emit_def ext_def new_events_def)


lemma read_time_trace:
  "read_time E s = (t, s') \<Longrightarrow> ext s s' \<and> high_level (new_events s s') = []
     \<and> active_sandboxes s' = active_sandboxes s \<and> execution_history s' = execution_history s"
  by (auto simp: read_time_def emit_def ext_def new_events_def)

subsection \<open>The sandbox manager\<close>

lemma ensure_image_trace:
  "ensure_image E img s = (r, s') \<Longrightarrow> ext s s' \<and> high_level (new_events s s') = []
     \<and> active_sandboxes s' = active_sandboxes s \<and> execution_history s' = execution_history s
     \<and> is_available s' = is_available s"
  by (auto simp: ensure_image_def Let_def emit_def ext_def new_events_def is_available_def
           split: option.splits exn.splits)

lemma timed_exec_trace:
  "timed_exec E c cmd wd s = (r, s') \<Longrightarrow> ext s s' \<and> high_level (new_events s s') = []
     \<and> active_sandboxes s' = active_sandboxes s \<and> execution_history s' = execution_history s"
  by (auto simp: timed_exec_def read_time_def Let_def emit_def ext_def new_events_def
           split: sum.splits prod.splits)


lemma create_sandbox_trace:
  assumes "create_sandbox E l m c t n s = (r, s')"
  shows "ext s s'" and "execution_history s' = execution_history s"
    and "\<exists>cs. high_level (new_events s s') = CreateSandboxCalled l m c t n # cs
            \<and> (cs = [] \<and> r = None \<or> cs = [ContainersCreate
                  (container_args (dict_get image_map (str_lower l) (py ''ubuntu:22.04''))
                     (uuid4 E (trace s @ [CreateSandboxCalled l m c t n])) l m c n)])"
  using assms
  by (auto simp: create_sandbox_def draw_uuid_def ensure_image_def clock_def Let_def emit_def
                 ext_def new_events_def is_available_def
           split: if_splits option.splits exn.splits sum.splits prod.splits)

lemma execute_in_sandbox_trace:
  assumes "execute_in_sandbox E sid cmd wd t s = (d, s')"
  shows "ext s s'" and "execution_history s' = execution_history s"
    and "active_sandboxes s' = active_sandboxes s"
    and "high_level (new_events s s') = [ExecuteInSandboxReturned sid cmd (success d)]"
proof -
  obtain d0 s0 where b: "execute_in_sandbox_body E sid cmd wd t s = (d0, s0)"
    by (cases "execute_in_sandbox_body E sid cmd wd t s")
  have "ext s s0 \<and> high_level (new_events s s0) = []
        \<and> active_sandboxes s0 = active_sandboxes s \<and> execution_history s0 = execution_history s"
  proof (cases "active_sandboxes s sid")
    case None
    with b show ?thesis by (simp add: execute_in_sandbox_body_def)
  next
    case (Some sb)
    obtain r s1 where te: "timed_exec E (sb_container sb) cmd wd s = (r, s1)"
      by (cases "timed_exec E (sb_container sb) cmd wd s")
    from b Some te have "s0 = s1"
      by (auto simp: execute_in_sandbox_body_def split: sum.splits prod.splits if_splits)
    with timed_exec_trace [OF te] show ?thesis by simp
  qed
  moreover from assms b have "d = d0" "s' = emit (ExecuteInSandboxReturned sid cmd (success d0)) s0"
    by (auto simp: execute_in_sandbox_def)
  ultimately show "ext s s'" "execution_history s' = execution_history s"
    "active_sandboxes s' = active_sandboxes s"
    "high_level (new_events s s') = [ExecuteInSandboxReturned sid cmd (success d)]"
    by (simp_all add: new_events_emit_ext ext_emit_right)
qed

lemma upload_file_trace:
  assumes "upload_file_to_sandbox E sid b d s = (r, s')"
  shows "ext s s'" and "execution_history s' = execution_history s"
    and "active_sandboxes s' = active_sandboxes s"
    and "high_level (new_events s s') = [UploadFileCalled sid b d]"
  using assms
  by (auto simp: upload_file_to_sandbox_def Let_def emit_def ext_def new_events_def
           split: option.splits)


lemma stop_sandbox_trace:
  assumes "stop_sandbox E sid s = (r, s')"
  shows "ext s s'" and "execution_history s' = execution_history s"
    and "high_level (new_events s s') = [StopSandboxCalled sid]"
  using assms
  by (auto simp: stop_sandbox_def Let_def emit_def ext_def new_events_def
           split: option.splits)


subsection \<open>Runs\<close>

lemma run_events_trans:
  "run_events s s1 xs \<Longrightarrow> run_events s1 s2 ys \<Longrightarrow> run_events s s2 (xs @ ys)"
  using ext_trans [of s s1 s2] new_events_append [of s s1 s2] by (simp add: run_events_def)

lemma run_events_refl [simp]: "run_events s s []"
  by (simp add: run_events_def)

lemma run_events_history [simp]:
  "run_events s (s'\<lparr>execution_history := h\<rparr>) evs = run_events s s' evs"
  by (simp add: run_events_def)

lemma draw_uuid_run: "draw_uuid E s = (u, s') \<Longrightarrow> run_events s s' []"
  by (simp add: run_events_def draw_uuid_trace)


lemma execute_in_sandbox_run:
  "execute_in_sandbox E sid cmd wd t s = (d, s')
   \<Longrightarrow> run_events s s' [ExecuteInSandboxReturned sid cmd (success d)]"
  by (simp add: run_events_def execute_in_sandbox_trace)

lemma upload_file_run:
  "upload_file_to_sandbox E sid b d s = (r, s') \<Longrightarrow> run_events s s' [UploadFileCalled sid b d]"
  by (simp add: run_events_def upload_file_trace)


lemma stop_sandbox_run:
  "stop_sandbox E sid s = (r, s') \<Longrightarrow> run_events s s' [StopSandboxCalled sid]"
  by (simp add: run_events_def stop_sandbox_trace)

lemma create_sandbox_run:
  assumes "create_sandbox E l m c t n s = (r, s')"
  shows "\<exists>cs. run_events s s' (CreateSandboxCalled l m c t n # cs)
            \<and> (cs = [] \<and> r = None \<or> cs = [ContainersCreate
                  (container_args (dict_get image_map (str_lower l) (py ''ubuntu:22.04''))
                     (uuid4 E (trace s @ [CreateSandboxCalled l m c t n])) l m c n)])"
  using create_sandbox_trace [OF assms] by (auto simp: run_events_def)

subsection \<open>The steps of the pipeline\<close>

lemma py_neq [simp]:
  "py ''running'' \<noteq> py ''failed''" "py ''success'' \<noteq> py ''failed''"
  "py ''warning'' \<noteq> py ''failed''" "py ''test'' \<noteq> py ''clone''" "py ''test'' \<noteq> py ''build''"
  "py ''failed'' \<noteq> py ''running''" "py ''success'' \<noteq> py ''running''"
  "py ''warning'' \<noteq> py ''running''" "py ''failed'' \<noteq> py ''success''"
  "py ''warning'' \<noteq> py ''success''"
  by (simp_all add: py_def)

lemma log_view_append [simp]: "log_view (xs @ ys) = log_view xs @ log_view ys"
  by (simp add: log_view_def)

lemma log_view_simps [simp]:
  "log_view [] = []"
  "log_view (running_entry name cmd t1 # lg) = (name, cmd, py ''running'') # log_view lg"
  "log_view (outcome_entry name c bad d t2 # lg)
     = (name, Some c, if success d then py ''success'' else bad) # log_view lg"
  by (simp_all add: log_view_def running_entry_def outcome_entry_def)

lemma critical_in_view_Nil [simp]: "\<not> critical_in_view []"
  by (simp add: critical_in_view_def)

lemma steps_view_Nil [simp]: "steps_view [] oks = []" "steps_view sts [] = []"
  by (simp_all add: steps_view_def)

lemma steps_view_Cons [simp]:
  "steps_view (st # sts) (ok # oks) = step_view st ok @ steps_view sts oks"
  by (simp add: steps_view_def)

lemma steps_view_append:
  "length sts = length oks
   \<Longrightarrow> steps_view (sts @ sts') (oks @ oks') = steps_view sts oks @ steps_view sts' oks'"
  by (simp add: steps_view_def)

lemma critical_in_view_append [simp]:
  "critical_in_view (xs @ ys) = (critical_in_view xs \<or> critical_in_view ys)"
  by (auto simp: critical_in_view_def list_ex_iff)



lemma str_of_simps [simp]: "str_of (Some c) = c" "str_of None = []"
  by (simp_all add: str_of_def)

lemma truthy_simps [simp]: "truthy (Some c) = (c \<noteq> [])" "\<not> truthy None"
  by (simp_all add: truthy_def)

lemma truthy_Some: "truthy x \<Longrightarrow> \<exists>c. x = Some c"
  by (cases x) simp_all



lemma length_setup_steps [simp]: "length (setup_steps i cmds) = length cmds"
  by (simp add: setup_steps_def)


lemma critical_test_step [simp]:
  "\<not> critical_in_view (step_view (py ''test'', c, bad) ok)"
  by (simp add: step_view_def critical_in_view_def)

lemma critical_build_step [simp]:
  "critical_in_view (step_view (py ''build'', c, py ''failed'') ok) = (\<not> ok)"
  by (simp add: step_view_def critical_in_view_def)



lemma str_encode_Inl: "str_encode code = Inl e \<Longrightarrow> list_ex is_surrogate code"
  by (simp add: str_encode_def split: if_splits)

lemma str_encode_Inr:
  "str_encode code = Inr b \<Longrightarrow> \<not> list_ex is_surrogate code \<and> b = concat (map utf8_bytes code)"
  by (auto simp: str_encode_def split: if_splits)

lemma execute_code_snippet_cases:
  assumes run: "execute_code_snippet E code language t s = (q, s')"
  defines "entered \<equiv> ExecuteCodeSnippetCalled code language t"
  defines "called \<equiv> CreateSandboxCalled language (py ''256m'') (1 / 2) t False"
  defines "sid \<equiv> str_of (sn_sandbox_id q)"
  defines "file \<equiv> py ''code_'' @ str_of (sn_execution_id q) @ py ''.'' @ get_file_extension language"
  shows
    "\<exists>cs. snippet_container language cs
       \<and> ((sn_sandbox_id q = None \<and> sn_status q = py ''failed''
             \<and> run_events s s' (entered # called # cs))
          \<or> (sn_sandbox_id q \<noteq> None \<and> sn_status q = py ''error''
                \<and> cs \<noteq> [] \<and> list_ex is_surrogate code
                \<and> run_events s s' (entered # called # cs @ [StopSandboxCalled sid]))
          \<or> (sn_sandbox_id q \<noteq> None
                \<and> (sn_status q = py ''success'' \<or> sn_status q = py ''failed'')
                \<and> cs \<noteq> [] \<and> \<not> list_ex is_surrogate code
                \<and> run_events s s'
                     (entered # called # cs
                      @ [UploadFileCalled sid (concat (map utf8_bytes code)) (py ''/tmp/'' @ file),
                         ExecuteInSandboxReturned sid (get_run_command language file)
                           (sn_status q = py ''success''),
                         StopSandboxCalled sid])))"
proof -
  let ?s0 = "emit entered s"
  have E0: "run_events s ?s0 [entered]"
    by (simp add: run_events_def entered_def)
  obtain eid s1 where u: "draw_uuid E ?s0 = (eid, s1)" by (cases "draw_uuid E ?s0")
  obtain cr s2 where c: "create_sandbox E language (py ''256m'') (1 / 2) t False s1 = (cr, s2)"
    by (cases "create_sandbox E language (py ''256m'') (1 / 2) t False s1")
  from create_sandbox_run [OF c] obtain cs where
    C: "run_events s1 s2 (called # cs)"
    and cs: "cs = [] \<and> cr = None \<or> cs = [ContainersCreate
                  (container_args (dict_get image_map (str_lower language) (py ''ubuntu:22.04''))
                     (uuid4 E (trace s1 @ [called])) language (py ''256m'') (1 / 2) False)]"
    unfolding called_def by (elim exE conjE) 
  have R2: "run_events s s2 (entered # called # cs)"
    using run_events_trans [OF run_events_trans [OF E0 draw_uuid_run [OF u]] C] by simp
  have cs': "snippet_container language cs"
    unfolding snippet_container_def using cs by (elim disjE conjE) (simp, intro disjI2 exI)
  show ?thesis
  proof (cases "truthy cr")
    case False
    with run u c have "sn_sandbox_id q = None" "sn_status q = py ''failed''" "s' = s2"
      by (auto simp: execute_code_snippet_def entered_def)
    with R2 cs' show ?thesis by (intro exI [of _ cs]) simp
  next
    case tr: True
    then obtain x where x: "cr = Some x" using truthy_Some by blast
    with cs have ne: "cs \<noteq> []" by (elim disjE conjE) simp_all
    show ?thesis
    proof (cases "str_encode code")
      case (Inl e)
      obtain sp s3 where sp: "stop_sandbox E x s2 = (sp, s3)" by (cases "stop_sandbox E x s2")
      from run u c tr x Inl sp
      have q: "sn_sandbox_id q = Some x" "sn_status q = py ''error''" and s': "s' = s3"
        by (auto simp: execute_code_snippet_def entered_def Let_def)
      have "run_events s s3 (entered # called # cs @ [StopSandboxCalled x])"
        using run_events_trans [OF R2 stop_sandbox_run [OF sp]] by simp
      with q s' cs' ne str_encode_Inl [OF Inl] show ?thesis
        by (intro exI [of _ cs]) (simp add: sid_def)
    next
      case (Inr bytes)
      let ?file = "py ''code_'' @ eid @ py ''.'' @ get_file_extension language"
      obtain up s3 where
        up: "upload_file_to_sandbox E x bytes (py ''/tmp/'' @ ?file) s2 = (up, s3)"
        by (cases "upload_file_to_sandbox E x bytes (py ''/tmp/'' @ ?file) s2")
      obtain res s4 where
        ex: "execute_in_sandbox E x (get_run_command language ?file) (py ''/tmp'') t s3 = (res, s4)"
        by (cases "execute_in_sandbox E x (get_run_command language ?file) (py ''/tmp'') t s3")
      obtain sp s5 where sp: "stop_sandbox E x s4 = (sp, s5)" by (cases "stop_sandbox E x s4")
      from run u c tr x Inr up ex sp
      have q: "sn_sandbox_id q = Some x" "sn_execution_id q = Some eid"
        "sn_status q = (if success res then py ''success'' else py ''failed'')" and s': "s' = s5"
        by (auto simp: execute_code_snippet_def entered_def Let_def)
      have ok: "(sn_status q = py ''success'') = success res" using q(3) by simp
      have "run_events s s5
                     (entered # called # cs
                      @ [UploadFileCalled x bytes (py ''/tmp/'' @ ?file),
                         ExecuteInSandboxReturned x (get_run_command language ?file) (success res),
                         StopSandboxCalled x])"
        using run_events_trans [OF run_events_trans [OF run_events_trans [OF R2
                upload_file_run [OF up]] execute_in_sandbox_run [OF ex]] stop_sandbox_run [OF sp]]
        by simp
      with q s' cs' ne str_encode_Inr [OF Inr] ok show ?thesis
        by (intro exI [of _ cs]) (simp add: sid_def file_def)
    qed
  qed
qed


subsection \<open>Reading a run's events\<close>


lemma run_events_exec_outcomes:
  "run_events s s' evs \<Longrightarrow> exec_outcomes (new_events s s') = exec_outcomes evs"
  using exec_outcomes_high_level [of "new_events s s'"]
  by (simp add: run_events_def exec_outcomes_def high_level_def)

lemma run_events_created_containers:
  "run_events s s' evs \<Longrightarrow> created_containers (new_events s s') = created_containers evs"
  using created_containers_high_level [of "new_events s s'"]
  by (simp add: run_events_def created_containers_def high_level_def)

lemma run_events_create_calls:
  "run_events s s' evs \<Longrightarrow> create_calls (new_events s s') = create_calls evs"
  using create_calls_high_level [of "new_events s s'"]
  by (simp add: run_events_def create_calls_def high_level_def)

lemma run_events_verdicts:
  "run_events s s' evs \<Longrightarrow> verdicts (new_events s s') = verdicts evs"
  using verdicts_high_level [of "new_events s s'"]
  by (simp add: run_events_def verdicts_def high_level_def)

lemma run_events_provisioning:
  "run_events s s' evs
   \<Longrightarrow> filter is_provisioning (new_events s s') = filter is_provisioning evs"
  using provisioning_high_level [of "new_events s s'"]
  by (simp add: run_events_def high_level_def)

lemma stop_calls_simps [simp]:
  "stop_calls sid [] = 0"
  "stop_calls sid (xs @ ys) = stop_calls sid xs + stop_calls sid ys"
  "stop_calls sid (StopSandboxCalled x # es) = (if x = sid then 1 else 0) + stop_calls sid es"
  "stop_calls sid (CreateSandboxCalled l m c t n # es) = stop_calls sid es"
  "stop_calls sid (ContainersCreate args # es) = stop_calls sid es"
  "stop_calls sid (ExecuteInSandboxReturned x cmd ok # es) = stop_calls sid es"
  "stop_calls sid (UploadFileCalled x b d # es) = stop_calls sid es"
  "stop_calls sid (GetSandboxStatsCalled x # es) = stop_calls sid es"
  "stop_calls sid (ExecuteCodeSnippetCalled code l t # es) = stop_calls sid es"
  "stop_calls sid (SecurityVerdict v # es) = stop_calls sid es"
  by (auto simp: stop_calls_def)

lemma stop_calls_returned [simp]: "stop_calls sid (map (returned_event x) zs) = 0"
  by (induction zs) (auto simp: returned_event_def)

lemma stop_calls_container [simp]:
  "no_container_or_one cs \<Longrightarrow> stop_calls sid cs = 0"
  "snippet_container l cs \<Longrightarrow> stop_calls sid cs = 0"
  by (auto simp: no_container_or_one_def snippet_container_def)

lemma created_containers_simps [simp]:
  "created_containers [] = []"
  "created_containers (xs @ ys) = created_containers xs @ created_containers ys"
  "created_containers (e # es)
     = (case e of ContainersCreate args \<Rightarrow> [args] | _ \<Rightarrow> []) @ created_containers es"
  by (simp_all add: created_containers_def)

lemma create_calls_simps [simp]:
  "create_calls [] = []"
  "create_calls (xs @ ys) = create_calls xs @ create_calls ys"
  "create_calls (e # es)
     = (case e of CreateSandboxCalled l m c t n \<Rightarrow> [n] | _ \<Rightarrow> []) @ create_calls es"
  by (simp_all add: create_calls_def)

lemma verdicts_simps [simp]:
  "verdicts [] = []"
  "verdicts (xs @ ys) = verdicts xs @ verdicts ys"
  "verdicts (e # es) = (case e of SecurityVerdict v \<Rightarrow> [v] | _ \<Rightarrow> []) @ verdicts es"
  by (simp_all add: verdicts_def)

lemma exec_outcomes_simps [simp]:
  "exec_outcomes [] = []"
  "exec_outcomes (xs @ ys) = exec_outcomes xs @ exec_outcomes ys"
  "exec_outcomes (e # es)
     = (case e of ExecuteInSandboxReturned sid cmd ok \<Rightarrow> [(cmd, ok)] | _ \<Rightarrow> []) @ exec_outcomes es"
  by (simp_all add: exec_outcomes_def outcome_of_def)

lemma exec_outcomes_returned [simp]:
  "exec_outcomes (map (returned_event x) zs) = map (\<lambda>((name, cmd, bad), ok). (cmd, ok)) zs"
  by (induction zs) (auto simp: returned_event_def)

lemma exec_outcomes_container [simp]:
  "no_container_or_one cs \<Longrightarrow> exec_outcomes cs = []"
  by (auto simp: no_container_or_one_def)



lemma py_simps: "py [] = []" "py (c # cs) = of_char c # py cs"
  by (simp_all add: py_def)

lemmas run_defs = py_simps
  execute_repository_def execute_code_snippet_def analyze_repository_executability_def
  create_sandbox_def ensure_image_def container_args_def execute_in_sandbox_def
  execute_in_sandbox_body_def timed_exec_def timeout_dict_def raised_dict_def decode_stream_def
  upload_file_to_sandbox_def get_sandbox_stats_def stop_sandbox_def
  run_optional_step_def running_entry_def outcome_entry_def
  draw_uuid_def clock_def read_time_def emit_def is_available_def
  docker_env_def fresh_state_def python_repo_def
  Let_def str_lower_def ascii_lower_def any_in_def truthy_def str_of_def dict_get_def image_map_def
  clone_command_def failed_critical_def str_encode_def is_surrogate_def last_segment_def
  get_file_extension_def get_run_command_def

subsection \<open>Snippets run without a network\<close>

text \<open>
  C10: \<open>execute_code_snippet\<close> calls \<open>create_sandbox\<close> once, with \<open>network_enabled = False\<close>, and
  every container this creates has network mode \<open>none\<close> and networking disabled; when the
  snippet got a sandbox, exactly one container was created.
\<close>

theorem snippet_sandbox_has_no_network:
  assumes "execute_code_snippet E code language t s = (q, s')"
  shows "create_calls (new_events s s') = [False]
       \<and> list_all (\<lambda>a. ca_network_mode a = py ''none'' \<and> ca_network_disabled a)
                  (created_containers (new_events s s'))
       \<and> (sn_sandbox_id q \<noteq> None \<longrightarrow> length (created_containers (new_events s s')) = 1)"
  using execute_code_snippet_cases [OF assms]
  by (elim disjE conjE exE)
     (auto simp: run_events_create_calls run_events_created_containers
                 snippet_container_def container_args_def)

theorem snippet_sandbox_has_no_network_witness:
  "create_calls (new_events (fresh_state True)
       (snd (execute_code_snippet (docker_env (\<lambda>c. False)) (py ''print(1)'') (py ''python'') 30
              (fresh_state True)))) = [False]
   \<and> map ca_network_mode (created_containers (new_events (fresh_state True)
       (snd (execute_code_snippet (docker_env (\<lambda>c. False)) (py ''print(1)'') (py ''python'') 30
              (fresh_state True))))) = [py ''none'']"
proof -
  let ?run = "execute_code_snippet (docker_env (\<lambda>c. False)) (py ''print(1)'') (py ''python'') 30
                (fresh_state True)"
  have sid: "sn_sandbox_id (fst ?run) \<noteq> None"
    by (simp add: run_defs)
  have run: "?run = (fst ?run, snd ?run)" by simp
  from snippet_sandbox_has_no_network [OF run] sid
  have a: "create_calls (new_events (fresh_state True) (snd ?run)) = [False]"
    and b: "list_all (\<lambda>a. ca_network_mode a = py ''none'' \<and> ca_network_disabled a)
                  (created_containers (new_events (fresh_state True) (snd ?run)))"
    and c: "length (created_containers (new_events (fresh_state True) (snd ?run))) = 1"
    by simp_all
  from c obtain x where x: "created_containers (new_events (fresh_state True) (snd ?run)) = [x]"
    by (cases "created_containers (new_events (fresh_state True) (snd ?run))") auto
  with b have "map ca_network_mode (created_containers (new_events (fresh_state True) (snd ?run)))
                 = [py ''none'']"
    by simp
  with a show ?thesis by simp
qed

subsection \<open>The security gate comes first\<close>

lemma execute_code_snippet_verdicts:
  assumes "execute_code_snippet E code language t s = (q, s')"
  shows "ext s s'" and "verdicts (new_events s s') = []"
  using execute_code_snippet_cases [OF assms]
  by (auto simp: run_events_verdicts snippet_container_def run_events_def)

text \<open>
  C1: a snippet submission whose code the security gate finds unsafe never reaches sandbox
  creation or the snippet executor; and when the handler has computed a verdict that is not
  safe, the request returns with status \<open>rejected\<close>. (A request refused with HTTP 503 because
  the service or Docker is unavailable is refused before any verdict is computed.)
\<close>

theorem unsafe_snippet_is_rejected:
  assumes "execute_code E request s = (out, s')"
  shows "(\<not> is_safe (validate_code (req_code request) (req_language request) True)
            \<longrightarrow> filter is_provisioning (new_events s s') = [])
       \<and> (list_ex (\<lambda>v. \<not> is_safe v) (verdicts (new_events s s'))
            \<longrightarrow> (\<exists>r. out = Returned r \<and> sn_status r = py ''rejected'')
                \<and> filter is_provisioning (new_events s s') = [])"
proof (cases "\<not> RUNANYWHERE_AVAILABLE s \<or> \<not> execution_controller s \<or> \<not> is_available s")
  case True
  with assms have "s' = s" by (auto simp: execute_code_def split: if_splits)
  then show ?thesis by simp
next
  case avail: False
  let ?v = "validate_code (req_code request) (req_language request) True"
  let ?s1 = "emit (SecurityVerdict ?v) s"
  show ?thesis
  proof (cases "is_safe ?v")
    case False
    with assms avail have "s' = ?s1" "out = Returned
                    \<lparr> sn_execution_id = None, sn_sandbox_id = None, sn_status = py ''rejected'',
                      sn_error = Some (py ''Code contains potentially dangerous patterns''),
                      sn_stdout = [], sn_stderr = [], sn_exit_code = None,
                      sn_execution_time = None, sn_validation = Some ?v \<rparr>"
      by (auto simp: execute_code_def Let_def split: if_splits)
    then show ?thesis by (simp add: is_provisioning_def)
  next
    case True
    obtain q s2 where
      sn: "execute_code_snippet E (req_code request) (req_language request) (req_timeout request) ?s1
             = (q, s2)"
      by (cases "execute_code_snippet E (req_code request) (req_language request)
                   (req_timeout request) ?s1")
    from assms avail True sn have s': "s' = s2"
      by (auto simp: execute_code_def Let_def split: if_splits)
    have "new_events s s' = new_events s ?s1 @ new_events ?s1 s2"
      using new_events_append [OF ext_emit execute_code_snippet_verdicts(1) [OF sn]] s' by simp
    then have "verdicts (new_events s s') = [?v]"
      using execute_code_snippet_verdicts(2) [OF sn] by simp
    with True show ?thesis by simp
  qed
qed

theorem unsafe_snippet_is_rejected_witness:
  "filter is_provisioning (new_events (fresh_state True)
      (snd (execute_code (docker_env (\<lambda>c. False))
              \<lparr> req_code = py ''import os'', req_language = py ''python'', req_timeout = 30 \<rparr>
              (fresh_state True)))) = []
   \<and> (\<exists>r. fst (execute_code (docker_env (\<lambda>c. False))
              \<lparr> req_code = py ''import os'', req_language = py ''python'', req_timeout = 30 \<rparr>
              (fresh_state True)) = Returned r \<and> sn_status r = py ''rejected'')"
proof -
  let ?req = "\<lparr> req_code = py ''import os'', req_language = py ''python'', req_timeout = 30 \<rparr>"
  let ?run = "execute_code (docker_env (\<lambda>c. False)) ?req (fresh_state True)"
  have u: "\<not> is_safe (validate_code (py ''import os'') (py ''python'') True)"
    by code_simp
  have s': "snd ?run = emit (SecurityVerdict (validate_code (py ''import os'') (py ''python'') True))
                         (fresh_state True)"
    using u by (simp add: execute_code_def Let_def fresh_state_def is_available_def emit_def)
  have v: "list_ex (\<lambda>v. \<not> is_safe v) (verdicts (new_events (fresh_state True) (snd ?run)))"
    using u by (simp add: s')
  have run: "?run = (fst ?run, snd ?run)" by simp
  from unsafe_snippet_is_rejected [OF run] v show ?thesis by simp
qed



subsection \<open>An unreachable engine\<close>






subsection \<open>Timeouts\<close>



subsection \<open>The security gate\<close>

lemma max_level_High [simp]: "max_level a High = High" "max_level High a = High"
  by (cases a; simp add: max_level_def)+

lemma max_severity_snoc [simp]:
  "max_severity (iss @ [x]) = max_level (max_severity iss) (severity x)"
  by (simp add: max_severity_def)

lemma max_severity_Nil [simp]: "max_severity [] = Safe"
  by (simp add: max_severity_def)








text \<open>
  C3: \<open>validate_repository_url\<close> searches the whole URL for an allow-listed domain, so it
  accepts a URL whose host is not allow-listed when the domain occurs in its path.
\<close>

theorem validate_repository_url_foreign_host:
  "validate_repository_url (py ''http://evil.example/github.com'') = True
   \<and> url_host (py ''http://evil.example/github.com'') = py ''evil.example''
   \<and> py ''evil.example'' \<notin> set allowed_hosts"
  by code_simp

end
